theory Spec2Isabelle
  imports Main
begin

section \<open>The browser wrapper of \<open>app/scraper/scraper.py\<close>\<close>

subsection \<open>Exceptions\<close>

text \<open>
  The Selenium library is an opaque collaborator: each call into it either returns or
  raises. What it raises is either a \<open>WebDriverException\<close> (the class or one of its
  subclasses) or some other exception; the string is what \<open>str(e)\<close> gives, which is
  all the wrapper reads of it. Strings are lists of code points below 256, which covers
  the Latin-1 letters of the wrapper's own messages.
\<close>

datatype lib_exn =
    WebDriverException (str: string)
  | OtherException (str: string)

text \<open>
  What the wrapper's methods can raise: an exception of the library (or, for the body
  of a \<open>with\<close> block, any exception of the caller's) passed on as it is, or one of the
  two errors of the module, built by \<open>raise X(msg) from e\<close> with its message and its
  cause.
\<close>

datatype exn =
    External lib_exn
  | DriverInitializationError string lib_exn
  | DriverShutdownError string lib_exn

subsection \<open>The objects handed to and received from the library\<close>

text \<open>
  \<open>ChromeService(executable_path=p)\<close> or \<open>ChromeService()\<close>: the argument is kept, and
  is \<open>None\<close> when the constructor was called without one.
\<close>

datatype service = ChromeService (executable_path: "string option")

text \<open>
  An \<open>Options\<close> object: the command-line arguments it will give the browser, and
  \<open>opt_headless\<close>, a plain instance attribute named \<open>headless\<close> when one has been set on
  it. \<open>Options()\<close> starts with no argument and no such attribute; \<open>add_argument\<close> appends.
\<close>

record options =
  arguments :: "string list"
  opt_headless :: "bool option"

definition Options :: options where
  "Options = \<lparr>arguments = [], opt_headless = None\<rparr>"

definition add_argument :: "string \<Rightarrow> options \<Rightarrow> options" where
  "add_argument a opts = opts\<lparr>arguments := arguments opts @ [a]\<rparr>"

text \<open>
  What the assignment \<open>options.headless = True\<close> does is the library's business, and the
  library has done two things. Up to Selenium 4.12 \<open>headless\<close> is a property of the class,
  whose setter, given \<open>True\<close>, appends \<open>--headless\<close> to the arguments. From 4.13 on the
  property is gone, and the assignment creates an instance attribute that nothing
  reads.
\<close>

datatype selenium = Headless_property | No_headless_property

definition assign_headless_True :: "selenium \<Rightarrow> options \<Rightarrow> options" where
  "assign_headless_True lib opts =
     (case lib of
        Headless_property \<Rightarrow> opts\<lparr>arguments := arguments opts @ [''--headless'']\<rparr>
      | No_headless_property \<Rightarrow> opts\<lparr>opt_headless := Some True\<rparr>)"

text \<open>
  The driver handle: what \<open>webdriver.Chrome(service=..., options=...)\<close> was given, and
  the implicit wait once \<open>implicitly_wait\<close> has set it. The wait is a float that the
  wrapper only passes on, so its type is left open.
\<close>

record 'w chrome =
  chrome_service :: "service option"
  chrome_options :: options
  chrome_wait :: "'w option"

datatype level = DEBUG | INFO | WARNING | ERROR | CRITICAL

text \<open>
  Everything the wrapper does to the outside, in program order: the records it sends to
  its logger (with \<open>exc_info\<close> when given) and the calls it makes into the library. A
  call is recorded when it is made, whether it then returns or raises.
\<close>

datatype 'w effect =
    Log level string "exn option"
  | NewService "string option"
  | NewChrome "service option" options
  | ImplicitlyWait "'w chrome" 'w
  | Quit "'w chrome"

subsection \<open>The wrapper\<close>

text \<open>
  The attributes set by \<open>__init__\<close> (\<open>_driver\<close> and \<open>_service\<close> are \<open>priv_driver\<close> and
  \<open>priv_service\<close> here), and \<open>history\<close>, the effects so far.
\<close>

record 'w scraper =
  driver_path :: "string option"
  headless :: bool
  implicit_wait :: 'w
  priv_driver :: "'w chrome option"
  priv_service :: "service option"
  history :: "'w effect list"

definition init :: "string option \<Rightarrow> bool \<Rightarrow> 'w \<Rightarrow> 'w scraper" where
  "init dp hl iw =
     \<lparr>driver_path = dp, headless = hl, implicit_wait = iw,
      priv_driver = None, priv_service = None, history = []\<rparr>"

definition emit :: "'w effect \<Rightarrow> 'w scraper \<Rightarrow> 'w scraper" where
  "emit e s = s\<lparr>history := history s @ [e]\<rparr>"

text \<open>Python's truth value of an \<open>Optional[str]\<close>: \<open>None\<close> and the empty string are false.\<close>

fun truthy :: "string option \<Rightarrow> bool" where
  "truthy None = False"
| "truthy (Some p) = (p \<noteq> [])"

text \<open>
  \<open>_configure_service\<close>. The argument is what the \<open>ChromeService\<close> constructor does:
  \<open>None\<close> when it returns, \<open>Some e\<close> when it raises \<open>e\<close>. Only a \<open>WebDriverException\<close> is
  caught, logged and wrapped; anything else leaves the method as it is.
\<close>

definition configure_service :: "lib_exn option \<Rightarrow> 'w scraper \<Rightarrow> (exn + unit) \<times> 'w scraper" where
  "configure_service so s =
     (let p = (if truthy (driver_path s) then driver_path s else None);
          s1 = emit (NewService p) s
      in case so of
           None \<Rightarrow> (Inr (), s1\<lparr>priv_service := Some (ChromeService p)\<rparr>)
         | Some (WebDriverException m) \<Rightarrow>
             (let msg = ''Error al configurar ChromeService: '' @ m
              in (Inl (DriverInitializationError msg (WebDriverException m)),
                  emit (Log ERROR msg None) s1))
         | Some (OtherException m) \<Rightarrow> (Inl (External (OtherException m)), s1))"

text \<open>
  \<open>_configure_options\<close>, with the library it runs against: three fixed flags, and when
  headless the assignment \<open>options.headless = True\<close> followed by one more flag.
\<close>

definition configure_options :: "selenium \<Rightarrow> 'w scraper \<Rightarrow> options" where
  "configure_options lib s =
     (let options = Options;
          options = add_argument ''--disable-infobars'' options;
          options = add_argument ''--disable-dev-shm-usage'' options;
          options = add_argument ''--no-sandbox'' options
      in if headless s
         then add_argument ''--disable-gpu'' (assign_headless_True lib options)
         else options)"

text \<open>
  \<open>stop\<close>. The argument is what \<open>quit()\<close> does when it is called. The \<open>finally\<close> block
  clears both references on every path out of the \<open>try\<close>.
\<close>

definition stop :: "lib_exn option \<Rightarrow> 'w scraper \<Rightarrow> (exn + unit) \<times> 'w scraper" where
  "stop qo s =
     (case priv_driver s of
        None \<Rightarrow> (Inr (), s)
      | Some d \<Rightarrow>
          (let s1 = emit (Quit d) s;
               (r, s2) =
                 (case qo of
                    None \<Rightarrow> (Inr (), emit (Log INFO ''Navegador cerrado correctamente.'' None) s1)
                  | Some (WebDriverException m) \<Rightarrow>
                      (let msg = ''Error al cerrar el navegador: '' @ m
                       in (Inl (DriverShutdownError msg (WebDriverException m)),
                           emit (Log ERROR msg None) s1))
                  | Some (OtherException m) \<Rightarrow> (Inl (External (OtherException m)), s1))
           in (r, s2\<lparr>priv_driver := None, priv_service := None\<rparr>)))"

text \<open>
  The library \<open>start\<close> runs against: which \<open>Options\<close> class it has, and what it does at
  each of the calls \<open>start\<close> can make: the service constructor, the driver constructor,
  \<open>implicitly_wait\<close>, and the \<open>quit()\<close> of the cleanup.
\<close>

record outcomes =
  options_class :: selenium
  service_outcome :: "lib_exn option"
  chrome_outcome :: "lib_exn option"
  wait_outcome :: "lib_exn option"
  quit_outcome :: "lib_exn option"

text \<open>The \<open>try\<close> block of \<open>start\<close>, lines 109 to 114.\<close>

definition start_body :: "outcomes \<Rightarrow> 'w scraper \<Rightarrow> (exn + 'w chrome) \<times> 'w scraper" where
  "start_body os s =
     (case configure_service (service_outcome os) s of
        (Inl e, s1) \<Rightarrow> (Inl e, s1)
      | (Inr _, s1) \<Rightarrow>
          (let options = configure_options (options_class os) s1;
               s2 = emit (NewChrome (priv_service s1) options) s1
           in case chrome_outcome os of
                Some e \<Rightarrow> (Inl (External e), s2)
              | None \<Rightarrow>
                  (let d = \<lparr>chrome_service = priv_service s1, chrome_options = options,
                            chrome_wait = None\<rparr>;
                       s3 = emit (ImplicitlyWait d (implicit_wait s2)) (s2\<lparr>priv_driver := Some d\<rparr>)
                   in case wait_outcome os of
                        Some e \<Rightarrow> (Inl (External e), s3)
                      | None \<Rightarrow>
                          (let d' = d\<lparr>chrome_wait := Some (implicit_wait s3)\<rparr>;
                               s4 = emit (Log INFO (''Navegador iniciado con '' @ [CHR 0xE9] @ ''xito.'') None)
                                      (s3\<lparr>priv_driver := Some d'\<rparr>)
                           in (Inr d', s4)))))"

text \<open>
  \<open>start\<close>: the early return on a live handle, the \<open>try\<close> block, and the handler, which
  catches a \<open>WebDriverException\<close> only. An exception that \<open>stop\<close> raises inside the
  handler leaves \<open>start\<close> in place of the initialization error.
\<close>

definition start :: "outcomes \<Rightarrow> 'w scraper \<Rightarrow> (exn + 'w chrome) \<times> 'w scraper" where
  "start os s =
     (case priv_driver s of
        Some d \<Rightarrow>
          (Inr d, emit (Log WARNING (''El navegador ya est'' @ [CHR 0xE1] @ '' iniciado.'') None) s)
      | None \<Rightarrow>
          (case start_body os s of
             (Inl (External (WebDriverException m)), s1) \<Rightarrow>
               (let msg = ''Error al iniciar el navegador: '' @ m;
                    s2 = emit (Log CRITICAL msg None) s1
                in case stop (quit_outcome os) s2 of
                     (Inl e, s3) \<Rightarrow> (Inl e, s3)
                   | (Inr _, s3) \<Rightarrow> (Inl (DriverInitializationError msg (WebDriverException m)), s3))
           | (r, s1) \<Rightarrow> (r, s1)))"

text \<open>\<open>__enter__\<close> is \<open>start\<close>.\<close>

definition enter :: "outcomes \<Rightarrow> 'w scraper \<Rightarrow> (exn + 'w chrome) \<times> 'w scraper" where
  "enter os s = start os s"

text \<open>
  \<open>__exit__\<close>: \<open>exc\<close> is the exception of the block, \<open>None\<close> when it ended normally. The
  call to \<open>stop\<close> comes first and is not guarded, so the logging and the \<open>return False\<close>
  are reached only when \<open>stop\<close> returns.
\<close>

definition exit :: "lib_exn option \<Rightarrow> exn option \<Rightarrow> 'w scraper \<Rightarrow> (exn + bool) \<times> 'w scraper" where
  "exit qo exc s =
     (case stop qo s of
        (Inl e, s1) \<Rightarrow> (Inl e, s1)
      | (Inr _, s1) \<Rightarrow>
          (Inr False,
           if exc \<noteq> None
           then emit (Log ERROR (''Excepci'' @ [CHR 0xF3] @ ''n en el bloque with'') exc) s1
           else s1))"

text \<open>
  The \<open>with\<close> statement of Python over the wrapper. When \<open>__enter__\<close> raises, the block and
  \<open>__exit__\<close> are not run. Otherwise the block runs (it may use the handle and the
  wrapper), then \<open>__exit__\<close>: an exception of \<open>__exit__\<close> replaces whatever the block raised;
  a false return value lets the block's exception go on, a true one would end the
  statement normally with no value.
\<close>

definition with_scraper ::
  "outcomes \<Rightarrow> lib_exn option \<Rightarrow> ('w chrome \<Rightarrow> 'w scraper \<Rightarrow> (exn + 'a) \<times> 'w scraper) \<Rightarrow>
   'w scraper \<Rightarrow> (exn + 'a option) \<times> 'w scraper" where
  "with_scraper os qo body s =
     (case enter os s of
        (Inl e, s1) \<Rightarrow> (Inl e, s1)
      | (Inr d, s1) \<Rightarrow>
          (case body d s1 of
             (Inr v, s2) \<Rightarrow>
               (case exit qo None s2 of
                  (Inl e', s3) \<Rightarrow> (Inl e', s3)
                | (Inr _, s3) \<Rightarrow> (Inr (Some v), s3))
           | (Inl e, s2) \<Rightarrow>
               (case exit qo (Some e) s2 of
                  (Inl e', s3) \<Rightarrow> (Inl e', s3)
                | (Inr suppress, s3) \<Rightarrow> if suppress then (Inr None, s3) else (Inl e, s3))))"

text \<open>A sequence of calls on one wrapper; the caller goes on after a call that raised.\<close>

datatype call = Start outcomes | Stop "lib_exn option"

fun run :: "call list \<Rightarrow> 'w scraper \<Rightarrow> 'w scraper" where
  "run [] s = s"
| "run (Start os # cs) s = run cs (snd (start os s))"
| "run (Stop qo # cs) s = run cs (snd (stop qo s))"

text \<open>The number of \<open>quit()\<close> calls in a history.\<close>

fun is_quit :: "'w effect \<Rightarrow> bool" where
  "is_quit (Quit _) = True"
| "is_quit _ = False"

definition quits :: "'w effect list \<Rightarrow> nat" where
  "quits h = length (filter is_quit h)"

text \<open>Which of the module's two errors a result is, if any.\<close>

fun is_shutdown_error :: "exn + 'a \<Rightarrow> bool" where
  "is_shutdown_error (Inl (DriverShutdownError _ _)) = True"
| "is_shutdown_error _ = False"

fun is_initialization_error :: "exn + 'a \<Rightarrow> bool" where
  "is_initialization_error (Inl (DriverInitializationError _ _)) = True"
| "is_initialization_error _ = False"

subsection \<open>Concrete inputs\<close>

text \<open>
  A library where every call returns, one where every call raises a
  \<open>WebDriverException\<close> (both with the \<open>headless\<close> property), a wrapper as \<open>Scraper("/opt/chromedriver", True, 10)\<close> builds
  it, the handle its first \<open>start\<close> gives, and a \<open>with\<close> block that raises.
\<close>

definition all_ok :: outcomes where
  "all_ok = \<lparr>options_class = Headless_property, service_outcome = None,
             chrome_outcome = None, wait_outcome = None, quit_outcome = None\<rparr>"

definition all_fail :: outcomes where
  "all_fail = \<lparr>options_class = Headless_property,
               service_outcome = Some (WebDriverException ''no service''),
               chrome_outcome = Some (WebDriverException ''no chrome''),
               wait_outcome = Some (WebDriverException ''no wait''),
               quit_outcome = Some (WebDriverException ''no quit'')\<rparr>"

definition demo :: "nat scraper" where
  "demo = init (Some ''/opt/chromedriver'') True 10"

definition demo_driver :: "nat chrome" where
  "demo_driver =
     \<lparr>chrome_service = Some (ChromeService (Some ''/opt/chromedriver'')),
      chrome_options =
        \<lparr>arguments = [''--disable-infobars'', ''--disable-dev-shm-usage'', ''--no-sandbox'',
                      ''--headless'', ''--disable-gpu''],
         opt_headless = None\<rparr>,
      chrome_wait = Some 10\<rparr>"

definition demo_started :: "nat scraper" where
  "demo_started = snd (start all_ok demo)"

definition failing_body :: "nat chrome \<Rightarrow> nat scraper \<Rightarrow> (exn + unit) \<times> nat scraper" where
  "failing_body d s = (Inl (External (OtherException ''ValueError'')), s)"

text \<open>Libraries that fail at one point only, and a \<open>quit()\<close> that raises.\<close>

definition wait_breaks :: outcomes where
  "wait_breaks = all_ok\<lparr>wait_outcome := Some (OtherException ''TypeError'')\<rparr>"




definition quit_fails :: "lib_exn option" where
  "quit_fails = Some (WebDriverException ''gone'')"

section \<open>The logging bootstrap of \<open>app/utils/logging_setup.py\<close>\<close>

subsection \<open>Paths and the file system\<close>

text \<open>
  A path is the list of its components below its anchor; \<open>parent\<close> of the anchor is the
  anchor, as for \<open>Path.parent\<close>. \<open>str_path\<close> is \<open>str()\<close> of an absolute POSIX path.
\<close>

type_synonym path = "string list"



definition str_path :: "path \<Rightarrow> string" where
  "str_path p = (if p = [] then ''/'' else concat (map (\<lambda>c. ''/'' @ c) p))"














subsection \<open>The module\<close>



definition LOG_FORMAT :: string where
  "LOG_FORMAT =
     ''%(asctime)s.%(msecs)03d [%(levelname)-8s] ''
       @ ''%(name)s:%(funcName)s:%(lineno)d - %(message)s''"

definition LOG_DATE_FORMAT :: string where
  "LOG_DATE_FORMAT = ''%Y-%m-%dT%H:%M:%S%z''"

definition LOG_MAX_BYTES :: int where
  "LOG_MAX_BYTES = 10 * 1024 * 1024"

definition LOG_BACKUP_COUNT :: int where
  "LOG_BACKUP_COUNT = 5"

definition LOG_ENCODING :: string where
  "LOG_ENCODING = ''utf-8''"




text \<open>
  The values of the configuration dictionary. A dictionary is the list of its items in
  the order of the literal; \<open>VStdout\<close> is \<open>sys.stdout\<close>.
\<close>

datatype pyval =
    VInt int
  | VBool bool
  | VStr string
  | VStdout
  | VList "pyval list"
  | VDict "(string \<times> pyval) list"

fun keys :: "pyval \<Rightarrow> string list" where
  "keys (VDict kvs) = map fst kvs"
| "keys _ = []"

fun lookup :: "pyval \<Rightarrow> string \<Rightarrow> pyval option" where
  "lookup (VDict kvs) k = map_of kvs k"
| "lookup _ k = None"

text \<open>\<open>get v [k1, k2, ...]\<close> is \<open>v[k1][k2]...\<close>, \<open>None\<close> when a key is missing.\<close>

fun get :: "pyval \<Rightarrow> string list \<Rightarrow> pyval option" where
  "get v [] = Some v"
| "get v (k # ks) = (case lookup v k of None \<Rightarrow> None | Some v' \<Rightarrow> get v' ks)"

definition get_logging_config :: "path \<Rightarrow> pyval" where
  "get_logging_config log_file_path =
     VDict [
       (''version'', VInt 1),
       (''disable_existing_loggers'', VBool False),
       (''formatters'', VDict [
          (''standard'', VDict [
             (''format'', VStr LOG_FORMAT),
             (''datefmt'', VStr LOG_DATE_FORMAT),
             (''validate'', VBool True)])]),
       (''handlers'', VDict [
          (''rotating_file'', VDict [
             (''class'', VStr ''logging.handlers.RotatingFileHandler''),
             (''level'', VStr ''INFO''),
             (''formatter'', VStr ''standard''),
             (''filename'', VStr (str_path log_file_path)),
             (''encoding'', VStr LOG_ENCODING),
             (''maxBytes'', VInt LOG_MAX_BYTES),
             (''backupCount'', VInt LOG_BACKUP_COUNT),
             (''delay'', VBool True)]),
          (''console'', VDict [
             (''class'', VStr ''logging.StreamHandler''),
             (''level'', VStr ''DEBUG''),
             (''formatter'', VStr ''standard''),
             (''stream'', VStdout)])]),
       (''loggers'', VDict [
          ('''', VDict [
             (''handlers'', VList [VStr ''rotating_file'', VStr ''console'']),
             (''level'', VStr ''DEBUG''),
             (''propagate'', VBool False)]),
          (''urllib3'', VDict [
             (''level'', VStr ''WARNING''),
             (''propagate'', VBool False)])])]"


subsection \<open>How the logging facility reads the levels\<close>

text \<open>
  The host logging facility is outside the repository. Two of its rules are needed to
  say which records a handler of the configuration is given: the numbers behind the
  level names, and the two comparisons a record passes on its way (the logger's level,
  then the level of each handler of that logger). The key \<open>""\<close> under \<open>loggers\<close> names
  the root logger.
\<close>

definition level_value :: "string \<Rightarrow> nat option" where
  "level_value =
     map_of [(''CRITICAL'', 50), (''FATAL'', 50), (''ERROR'', 40), (''WARN'', 30),
             (''WARNING'', 30), (''INFO'', 20), (''DEBUG'', 10), (''NOTSET'', 0)]"

definition level_at :: "pyval \<Rightarrow> string list \<Rightarrow> nat option" where
  "level_at cfg ks = (case get cfg ks of Some (VStr name) \<Rightarrow> level_value name | _ \<Rightarrow> None)"

text \<open>
  Whether a record of numeric level \<open>n\<close>, logged on the root logger (or on a logger
  without a level of its own that propagates to it), is handed to handler \<open>h\<close>.
\<close>

definition handler_receives :: "pyval \<Rightarrow> string \<Rightarrow> nat \<Rightarrow> bool" where
  "handler_receives cfg h n =
     (case (level_at cfg [''loggers'', '''', ''level''],
            get cfg [''loggers'', '''', ''handlers''],
            level_at cfg [''handlers'', h, ''level'']) of
        (Some root_level, Some (VList hs), Some handler_level) \<Rightarrow>
          root_level \<le> n \<and> VStr h \<in> set hs \<and> handler_level \<le> n
      | _ \<Rightarrow> False)"

subsection \<open>Applying the configuration\<close>








subsection \<open>Concrete inputs\<close>












section \<open>Properties of the wrapper\<close>

subsection \<open>Auxiliary facts\<close>

lemma outcome_cases [case_names Returns Raises_WebDriver Raises_Other]:
  obtains "x = None"
  | m where "x = Some (WebDriverException m)"
  | m where "x = Some (OtherException m)"
proof (cases x)
  case None
  then show ?thesis using that by simp
next
  case (Some e)
  then show ?thesis using that by (cases e) simp_all
qed

lemma demo_started_eq: "start all_ok demo = (Inr demo_driver, demo_started)"
  by (simp add: start_def start_body_def configure_service_def stop_def emit_def Let_def
      demo_def demo_driver_def demo_started_def all_ok_def init_def
      configure_options_def assign_headless_True_def Options_def add_argument_def)

lemma demo_started_driver: "priv_driver demo_started = Some demo_driver"
  by (simp add: start_def start_body_def configure_service_def stop_def emit_def Let_def
      demo_def demo_driver_def demo_started_def all_ok_def init_def
      configure_options_def assign_headless_True_def Options_def add_argument_def)

lemma stop_returns: "priv_driver s = None \<or> qo = None \<Longrightarrow> fst (stop qo s) = Inr ()"
  by (cases "priv_driver s"; cases qo rule: outcome_cases) (simp_all add: stop_def emit_def Let_def)

subsection \<open>Teardown\<close>

text \<open>
  C1, as the code has it. On a wrapper with a live handle, \<open>stop\<close> leaves both the
  handle and the service reference \<open>None\<close> whatever \<open>quit()\<close> does: it returns when
  \<open>quit()\<close> returns, raises a \<open>DriverShutdownError\<close> with the \<open>WebDriverException\<close> as
  its cause when \<open>quit()\<close> raises one, and lets any other exception of \<open>quit()\<close> through
  unchanged. Without a handle, \<open>stop\<close> returns and changes nothing.
\<close>

theorem stop_clears_handle:
  "(priv_driver s \<noteq> None \<longrightarrow>
      priv_driver (snd (stop qo s)) = None \<and> priv_service (snd (stop qo s)) = None
      \<and> fst (stop qo s) =
          (case qo of
             None \<Rightarrow> Inr ()
           | Some (WebDriverException m) \<Rightarrow>
               Inl (DriverShutdownError (''Error al cerrar el navegador: '' @ m)
                      (WebDriverException m))
           | Some (OtherException m) \<Rightarrow> Inl (External (OtherException m))))
   \<and> (priv_driver s = None \<longrightarrow> stop qo s = (Inr (), s))"
  by (cases "priv_driver s"; cases qo rule: outcome_cases) (simp_all add: stop_def emit_def Let_def)

theorem stop_clears_handle_witness:
  "priv_driver demo_started \<noteq> None
   \<and> priv_driver (snd (stop (Some (WebDriverException ''gone'')) demo_started)) = None
   \<and> priv_service (snd (stop (Some (WebDriverException ''gone'')) demo_started)) = None
   \<and> fst (stop (Some (WebDriverException ''gone'')) demo_started) =
       Inl (DriverShutdownError ''Error al cerrar el navegador: gone'' (WebDriverException ''gone''))
   \<and> priv_driver demo = None
   \<and> stop (Some (WebDriverException ''gone'')) demo = (Inr (), demo)"
  using stop_clears_handle [of demo_started "Some (WebDriverException ''gone'')"]
    stop_clears_handle [of demo "Some (WebDriverException ''gone'')"]
  by (simp add: demo_started_driver) (simp add: demo_def init_def)

text \<open>
  C1 as it is written asks for a shutdown error whenever \<open>quit()\<close> fails. A \<open>quit()\<close>
  that raises something other than a \<open>WebDriverException\<close> on a live handle is not
  caught by the handler of \<open>stop\<close>: the exception itself comes out.
\<close>

theorem stop_shutdown_error_counterexample:
  "priv_driver demo_started \<noteq> None
   \<and> fst (stop (Some (OtherException ''connection refused'')) demo_started) =
       Inl (External (OtherException ''connection refused''))
   \<and> \<not> is_shutdown_error (fst (stop (Some (OtherException ''connection refused'')) demo_started))"
  by (simp add: demo_started_driver stop_def emit_def Let_def)

subsection \<open>The scope\<close>

lemma exit_history:
  "history (snd (exit q x t)) =
     history (snd (stop q t))
       @ (if fst (stop q t) = Inr () \<and> x \<noteq> None
          then [Log ERROR (''Excepci'' @ [CHR 0xF3] @ ''n en el bloque with'') x] else [])"
  by (cases "priv_driver t"; cases q rule: outcome_cases) (simp_all add: exit_def stop_def emit_def Let_def)

lemma exit_quits:
  "quits (history (snd (exit q x t))) =
     quits (history t) + (if priv_driver t = None then 0 else 1)"
  by (cases "priv_driver t"; cases q rule: outcome_cases)
     (simp_all add: exit_def stop_def emit_def Let_def quits_def)

lemma exit_returns:
  "priv_driver t = None \<or> q = None \<Longrightarrow> fst (exit q x t) = Inr False"
  by (cases "priv_driver t"; cases q rule: outcome_cases) (simp_all add: exit_def stop_def emit_def Let_def)

lemma with_scraper_state:
  assumes "enter os s0 = (Inr d, s1)" and "body d s1 = (r, s2)"
  shows "snd (with_scraper os q body s0) =
           snd (exit q (case r of Inl e \<Rightarrow> Some e | Inr v \<Rightarrow> None) s2)"
proof (cases r)
  case (Inl e)
  then show ?thesis
    using assms
    by (cases "exit q (Some e) s2"; cases "fst (exit q (Some e) s2)")
       (simp_all add: with_scraper_def)
next
  case (Inr v)
  then show ?thesis
    using assms
    by (cases "exit q None s2"; cases "fst (exit q None s2)")
       (simp_all add: with_scraper_def)
qed

lemma with_scraper_rethrows:
  assumes "enter os s0 = (Inr d, s1)" and "body d s1 = (Inl e, s2)"
    and "priv_driver s2 = None \<or> q = None"
  shows "fst (with_scraper os q body s0) = Inl e"
  using assms(1,2) exit_returns [OF assms(3), of "Some e"]
  by (cases "exit q (Some e) s2") (simp add: with_scraper_def)

text \<open>
  C2, as the code has it. \<open>__exit__\<close> runs \<open>stop\<close> once, whether the block ended normally
  or raised: what it does to the outside is what one \<open>stop\<close> does, followed by one error
  record when the block raised and \<open>stop\<close> returned, so \<open>quit()\<close> is requested exactly once
  when a handle is live and not at all otherwise. When \<open>stop\<close> returns (there is no
  handle, or \<open>quit()\<close> returns), \<open>__exit__\<close> returns \<open>False\<close>. For the \<open>with\<close> statement: after
  a successful \<open>__enter__\<close> the exit path requests \<open>quit()\<close> exactly once for a live handle,
  whatever the block did; and when the block raised and \<open>stop\<close> returns, the block's
  exception is logged with its \<open>exc_info\<close> and is what the statement raises.
\<close>

theorem exit_stops_once:
  "history (snd (exit qo exc s)) =
     history (snd (stop qo s))
       @ (if fst (stop qo s) = Inr () \<and> exc \<noteq> None
          then [Log ERROR (''Excepci'' @ [CHR 0xF3] @ ''n en el bloque with'') exc] else [])
   \<and> quits (history (snd (exit qo exc s))) =
       quits (history s) + (if priv_driver s = None then 0 else 1)
   \<and> (priv_driver s = None \<or> qo = None \<longrightarrow> fst (exit qo exc s) = Inr False)
   \<and> (enter os s0 = (Inr d, s1) \<and> body d s1 = (r, s2) \<longrightarrow>
        quits (history (snd (with_scraper os qo' body s0))) =
          quits (history s2) + (if priv_driver s2 = None then 0 else 1))
   \<and> (enter os s0 = (Inr d, s1) \<and> body d s1 = (Inl e, s2)
        \<and> (priv_driver s2 = None \<or> qo' = None) \<longrightarrow>
        fst (with_scraper os qo' body s0) = Inl e
        \<and> history (snd (with_scraper os qo' body s0)) =
            history (snd (stop qo' s2))
              @ [Log ERROR (''Excepci'' @ [CHR 0xF3] @ ''n en el bloque with'') (Some e)])"
proof (intro conjI impI)
  show "history (snd (exit qo exc s)) =
     history (snd (stop qo s))
       @ (if fst (stop qo s) = Inr () \<and> exc \<noteq> None
          then [Log ERROR (''Excepci'' @ [CHR 0xF3] @ ''n en el bloque with'') exc] else [])"
    by (rule exit_history)
  show "quits (history (snd (exit qo exc s))) =
       quits (history s) + (if priv_driver s = None then 0 else 1)"
    by (rule exit_quits)
  show "fst (exit qo exc s) = Inr False" if "priv_driver s = None \<or> qo = None"
    using that by (rule exit_returns)
  show "quits (history (snd (with_scraper os qo' body s0))) =
          quits (history s2) + (if priv_driver s2 = None then 0 else 1)"
    if "enter os s0 = (Inr d, s1) \<and> body d s1 = (r, s2)"
    using that with_scraper_state [of os s0 d s1 body r s2 qo'] by (simp add: exit_quits)
  show "fst (with_scraper os qo' body s0) = Inl e"
    if "enter os s0 = (Inr d, s1) \<and> body d s1 = (Inl e, s2)
        \<and> (priv_driver s2 = None \<or> qo' = None)"
    using that with_scraper_rethrows [of os s0 d s1 body e s2 qo'] by blast
  show "history (snd (with_scraper os qo' body s0)) =
            history (snd (stop qo' s2))
              @ [Log ERROR (''Excepci'' @ [CHR 0xF3] @ ''n en el bloque with'') (Some e)]"
    if "enter os s0 = (Inr d, s1) \<and> body d s1 = (Inl e, s2)
        \<and> (priv_driver s2 = None \<or> qo' = None)"
    using that with_scraper_state [of os s0 d s1 body "Inl e" s2 qo']
      stop_returns [of s2 qo']
    by (simp add: exit_history)
qed

theorem exit_stops_once_witness:
  "enter all_ok demo = (Inr demo_driver, demo_started)
   \<and> failing_body demo_driver demo_started =
       (Inl (External (OtherException ''ValueError'')), demo_started)
   \<and> priv_driver demo_started \<noteq> None
   \<and> fst (exit None (Some (External (OtherException ''ValueError''))) demo_started) = Inr False
   \<and> quits (history (snd (exit quit_fails None demo_started))) =
       quits (history demo_started) + 1
   \<and> quits (history (snd (with_scraper all_ok quit_fails failing_body demo))) =
       quits (history demo_started) + 1
   \<and> fst (with_scraper all_ok None failing_body demo) =
       Inl (External (OtherException ''ValueError''))
   \<and> history (snd (with_scraper all_ok None failing_body demo)) =
       history (snd (stop None demo_started))
         @ [Log ERROR (''Excepci'' @ [CHR 0xF3] @ ''n en el bloque with'')
              (Some (External (OtherException ''ValueError'')))]"
proof -
  have a: "enter all_ok demo = (Inr demo_driver, demo_started)"
    by (simp add: enter_def demo_started_eq)
  have b: "failing_body demo_driver demo_started =
       (Inl (External (OtherException ''ValueError'')), demo_started)"
    by (simp add: failing_body_def)
  have c: "priv_driver demo_started \<noteq> None"
    by (simp add: demo_started_driver)
  let ?e = "External (OtherException ''ValueError'')"
  note t1 = exit_stops_once [of None "Some ?e" demo_started
        all_ok demo demo_driver demo_started failing_body "Inl ?e" demo_started quit_fails ?e]
  note t2 = exit_stops_once [of quit_fails None demo_started
        all_ok demo demo_driver demo_started failing_body "Inl ?e" demo_started None ?e]
  have r1: "fst (exit None (Some ?e) demo_started) = Inr False"
    using t1 by blast
  have "quits (history (snd (exit quit_fails None demo_started))) =
          quits (history demo_started) + (if priv_driver demo_started = None then 0 else 1)"
    using t2 by blast
  with c have r2: "quits (history (snd (exit quit_fails None demo_started))) =
                     quits (history demo_started) + 1"
    by simp
  have "quits (history (snd (with_scraper all_ok quit_fails failing_body demo))) =
          quits (history demo_started) + (if priv_driver demo_started = None then 0 else 1)"
    using a b t1 by blast
  with c have r3: "quits (history (snd (with_scraper all_ok quit_fails failing_body demo))) =
                     quits (history demo_started) + 1"
    by simp
  have r4: "fst (with_scraper all_ok None failing_body demo) = Inl ?e
            \<and> history (snd (with_scraper all_ok None failing_body demo)) =
                history (snd (stop None demo_started))
                  @ [Log ERROR (''Excepci'' @ [CHR 0xF3] @ ''n en el bloque with'') (Some ?e)]"
    using a b t2 by blast
  show ?thesis
    using a b c r1 r2 r3 r4 by blast
qed

text \<open>
  C2 as it is written asks that the block's exception is always logged and rethrown.
  When \<open>quit()\<close> raises a \<open>WebDriverException\<close> at the exit of a block that raised, \<open>stop\<close>
  raises inside \<open>__exit__\<close> before the logging line: the statement raises the
  \<open>DriverShutdownError\<close>, not the block's exception, and nothing is logged about the
  latter.
\<close>

theorem exit_rethrows_counterexample:
  "fst (enter all_ok demo) = Inr demo_driver
   \<and> fst (failing_body demo_driver demo_started) = Inl (External (OtherException ''ValueError''))
   \<and> fst (with_scraper all_ok quit_fails failing_body demo) =
       Inl (DriverShutdownError ''Error al cerrar el navegador: gone'' (WebDriverException ''gone''))
   \<and> fst (with_scraper all_ok quit_fails failing_body demo) \<noteq>
       Inl (External (OtherException ''ValueError''))
   \<and> Log ERROR (''Excepci'' @ [CHR 0xF3] @ ''n en el bloque with'')
         (Some (External (OtherException ''ValueError'')))
       \<notin> set (history (snd (with_scraper all_ok quit_fails failing_body demo)))"
  by (simp add: with_scraper_def enter_def exit_def start_def start_body_def configure_service_def stop_def emit_def Let_def
      demo_def demo_driver_def demo_started_def all_ok_def init_def
      configure_options_def assign_headless_True_def Options_def add_argument_def
      failing_body_def quit_fails_def)

subsection \<open>Startup\<close>

lemma start_Inr_driver:
  "fst (start os s) = Inr d \<Longrightarrow> priv_driver (snd (start os s)) = Some d"
  by (cases "priv_driver s"; cases "service_outcome os" rule: outcome_cases;
      cases "chrome_outcome os" rule: outcome_cases;
      cases "wait_outcome os" rule: outcome_cases;
      cases "quit_outcome os" rule: outcome_cases)
     (simp_all add: start_def start_body_def configure_service_def stop_def emit_def Let_def)




text \<open>
  C4. Once \<open>start\<close> has returned a handle, a second \<open>start\<close> with no \<open>stop\<close> in between
  returns the same handle, whatever the library would do if it were called. What the
  second call does to the outside is exactly one record sent to the logger, a warning:
  the history after it is the history before it with that record appended, so no
  service and no driver is built. The handle, the service reference and every other
  attribute of the wrapper stay as they were.
\<close>

theorem start_twice_same_handle:
  assumes "fst (start os1 s) = Inr d"
  shows "fst (start os2 (snd (start os1 s))) = Inr d
         \<and> history (snd (start os2 (snd (start os1 s)))) =
             history (snd (start os1 s))
               @ [Log WARNING (''El navegador ya est'' @ [CHR 0xE1] @ '' iniciado.'') None]
         \<and> priv_driver (snd (start os2 (snd (start os1 s)))) = Some d
         \<and> snd (start os2 (snd (start os1 s))) =
             (snd (start os1 s))
               \<lparr>history := history (snd (start os1 s))
                  @ [Log WARNING (''El navegador ya est'' @ [CHR 0xE1] @ '' iniciado.'') None]\<rparr>"
  using start_Inr_driver [OF assms] by (simp add: start_def emit_def)

theorem start_twice_same_handle_witness:
  "fst (start all_ok demo) = Inr demo_driver
   \<and> fst (start all_fail (snd (start all_ok demo))) = Inr demo_driver
   \<and> history (snd (start all_ok demo)) =
       [NewService (Some ''/opt/chromedriver''),
        NewChrome (Some (ChromeService (Some ''/opt/chromedriver''))) (chrome_options demo_driver),
        ImplicitlyWait (demo_driver\<lparr>chrome_wait := None\<rparr>) 10,
        Log INFO (''Navegador iniciado con '' @ [CHR 0xE9] @ ''xito.'') None]
   \<and> history (snd (start all_fail (snd (start all_ok demo)))) =
       [NewService (Some ''/opt/chromedriver''),
        NewChrome (Some (ChromeService (Some ''/opt/chromedriver''))) (chrome_options demo_driver),
        ImplicitlyWait (demo_driver\<lparr>chrome_wait := None\<rparr>) 10,
        Log INFO (''Navegador iniciado con '' @ [CHR 0xE9] @ ''xito.'') None,
        Log WARNING (''El navegador ya est'' @ [CHR 0xE1] @ '' iniciado.'') None]
   \<and> priv_driver (snd (start all_fail (snd (start all_ok demo)))) = Some demo_driver"
proof -
  have h: "fst (start all_ok demo) = Inr demo_driver"
    by (simp add: demo_started_eq)
  have k: "history (snd (start all_ok demo)) =
       [NewService (Some ''/opt/chromedriver''),
        NewChrome (Some (ChromeService (Some ''/opt/chromedriver''))) (chrome_options demo_driver),
        ImplicitlyWait (demo_driver\<lparr>chrome_wait := None\<rparr>) 10,
        Log INFO (''Navegador iniciado con '' @ [CHR 0xE9] @ ''xito.'') None]"
    by (simp add: start_def start_body_def configure_service_def stop_def emit_def Let_def
      demo_def demo_driver_def all_ok_def init_def
      configure_options_def assign_headless_True_def Options_def add_argument_def)
  have "fst (start all_fail (snd (start all_ok demo))) = Inr demo_driver
        \<and> history (snd (start all_fail (snd (start all_ok demo)))) =
            history (snd (start all_ok demo))
              @ [Log WARNING (''El navegador ya est'' @ [CHR 0xE1] @ '' iniciado.'') None]
        \<and> priv_driver (snd (start all_fail (snd (start all_ok demo)))) = Some demo_driver"
    using start_twice_same_handle [OF h, of all_fail] by blast
  then show ?thesis
    using h k by simp
qed

text \<open>
  C10. On a wrapper without a handle, when the first call of \<open>start\<close> that fails (service
  constructor, driver constructor or \<open>implicitly_wait\<close>) raises something that is not a
  \<open>WebDriverException\<close>, \<open>start\<close> raises that exception unchanged, not a
  \<open>DriverInitializationError\<close>, and does nothing after the \<open>try\<close> block: \<open>quit()\<close> is not
  requested, and a driver that had been built stays in the wrapper.
\<close>

theorem start_other_exception_propagates:
  assumes "priv_driver s = None"
    and "service_outcome os = Some (OtherException m)
         \<or> service_outcome os = None \<and> chrome_outcome os = Some (OtherException m)
         \<or> service_outcome os = None \<and> chrome_outcome os = None
             \<and> wait_outcome os = Some (OtherException m)"
  shows "fst (start os s) = Inl (External (OtherException m))
         \<and> \<not> is_initialization_error (fst (start os s))
         \<and> snd (start os s) = snd (start_body os s)
         \<and> quits (history (snd (start os s))) = quits (history s)
         \<and> (service_outcome os = None \<and> chrome_outcome os = None
              \<longrightarrow> priv_driver (snd (start os s)) \<noteq> None)"
  using assms
  by (cases "service_outcome os" rule: outcome_cases;
      cases "chrome_outcome os" rule: outcome_cases;
      cases "wait_outcome os" rule: outcome_cases)
     (simp_all add: start_def start_body_def configure_service_def stop_def emit_def Let_def quits_def)

theorem start_other_exception_propagates_witness:
  "priv_driver demo = None
   \<and> service_outcome wait_breaks = None \<and> chrome_outcome wait_breaks = None
   \<and> wait_outcome wait_breaks = Some (OtherException ''TypeError'')
   \<and> fst (start wait_breaks demo) = Inl (External (OtherException ''TypeError''))
   \<and> \<not> is_initialization_error (fst (start wait_breaks demo))
   \<and> quits (history (snd (start wait_breaks demo))) = 0
   \<and> priv_driver (snd (start wait_breaks demo)) \<noteq> None"
proof -
  have h1: "priv_driver demo = None" by (simp add: demo_def init_def)
  have h2: "service_outcome wait_breaks = None \<and> chrome_outcome wait_breaks = None
            \<and> wait_outcome wait_breaks = Some (OtherException ''TypeError'')"
    by (simp add: wait_breaks_def all_ok_def)
  from h2 have h3: "service_outcome wait_breaks = Some (OtherException ''TypeError'')
         \<or> service_outcome wait_breaks = None
             \<and> chrome_outcome wait_breaks = Some (OtherException ''TypeError'')
         \<or> service_outcome wait_breaks = None \<and> chrome_outcome wait_breaks = None
             \<and> wait_outcome wait_breaks = Some (OtherException ''TypeError'')"
    by simp
  have h4: "quits (history demo) = 0" by (simp add: demo_def init_def quits_def)
  have "fst (start wait_breaks demo) = Inl (External (OtherException ''TypeError''))
        \<and> \<not> is_initialization_error (fst (start wait_breaks demo))
        \<and> quits (history (snd (start wait_breaks demo))) = quits (history demo)
        \<and> (service_outcome wait_breaks = None \<and> chrome_outcome wait_breaks = None
              \<longrightarrow> priv_driver (snd (start wait_breaks demo)) \<noteq> None)"
    using start_other_exception_propagates [OF h1 h3] by blast
  then show ?thesis
    using h1 h2 h4 by simp
qed

subsection \<open>Options and configuration\<close>



lemma start_fields:
  "driver_path (snd (start os s)) = driver_path s \<and> headless (snd (start os s)) = headless s
   \<and> implicit_wait (snd (start os s)) = implicit_wait s"
  by (cases "priv_driver s"; cases "service_outcome os" rule: outcome_cases;
      cases "chrome_outcome os" rule: outcome_cases;
      cases "wait_outcome os" rule: outcome_cases;
      cases "quit_outcome os" rule: outcome_cases)
     (simp_all add: start_def start_body_def configure_service_def stop_def emit_def Let_def)

lemma stop_fields:
  "driver_path (snd (stop qo s)) = driver_path s \<and> headless (snd (stop qo s)) = headless s
   \<and> implicit_wait (snd (stop qo s)) = implicit_wait s"
  by (cases "priv_driver s"; cases qo rule: outcome_cases) (simp_all add: stop_def emit_def Let_def)

text \<open>
  C6. Whatever sequence of \<open>start\<close> and \<open>stop\<close> calls is made on a wrapper, and whatever
  the library does at each of them, the driver path, the headless flag and the implicit
  wait are what they were before.
\<close>

theorem run_keeps_configuration:
  "driver_path (run cs s) = driver_path s \<and> headless (run cs s) = headless s
   \<and> implicit_wait (run cs s) = implicit_wait s"
proof (induction cs arbitrary: s)
  case Nil
  show ?case by simp
next
  case (Cons c cs)
  show ?case
  proof (cases c)
    case (Start os)
    then show ?thesis using Cons.IH [of "snd (start os s)"] start_fields [of os s] by simp
  next
    case (Stop qo)
    then show ?thesis using Cons.IH [of "snd (stop qo s)"] stop_fields [of qo s] by simp
  qed
qed

section \<open>Properties of the logging bootstrap\<close>

text \<open>
  C7. For every log file path, the configuration has exactly the handlers
  \<open>rotating_file\<close> and \<open>console\<close>: the first a \<open>RotatingFileHandler\<close> on that path with
  UTF-8 encoding, at most \<open>10 * 1024 * 1024\<close> bytes per file, 5 backups and a delayed
  open, the second a \<open>StreamHandler\<close> on the standard output; and exactly the loggers
  \<open>""\<close> (the root) at \<open>DEBUG\<close> and \<open>urllib3\<close> at \<open>WARNING\<close>.
\<close>

theorem logging_config_handlers_and_loggers:
  "map_option keys (get (get_logging_config p) [''handlers'']) =
     Some [''rotating_file'', ''console'']
   \<and> get (get_logging_config p) [''handlers'', ''rotating_file''] =
       Some (VDict [
         (''class'', VStr ''logging.handlers.RotatingFileHandler''),
         (''level'', VStr ''INFO''),
         (''formatter'', VStr ''standard''),
         (''filename'', VStr (str_path p)),
         (''encoding'', VStr ''utf-8''),
         (''maxBytes'', VInt 10485760),
         (''backupCount'', VInt 5),
         (''delay'', VBool True)])
   \<and> LOG_MAX_BYTES = 10 * 1024 * 1024
   \<and> get (get_logging_config p) [''handlers'', ''console'', ''class''] =
       Some (VStr ''logging.StreamHandler'')
   \<and> get (get_logging_config p) [''handlers'', ''console'', ''stream''] = Some VStdout
   \<and> map_option keys (get (get_logging_config p) [''loggers'']) = Some ['''', ''urllib3'']
   \<and> get (get_logging_config p) [''loggers'', '''', ''level''] = Some (VStr ''DEBUG'')
   \<and> get (get_logging_config p) [''loggers'', ''urllib3'', ''level''] = Some (VStr ''WARNING'')"
  by (simp add: get_logging_config_def LOG_MAX_BYTES_def LOG_BACKUP_COUNT_def LOG_ENCODING_def)

text \<open>
  C9. In the configuration the rotating file handler has level \<open>INFO\<close>, the console
  handler \<open>DEBUG\<close> and the root logger \<open>DEBUG\<close>. So a record logged on the root logger is
  handed to the file handler exactly when its level is at least 20 (\<open>INFO\<close>), and to the
  console handler exactly when it is at least 10 (\<open>DEBUG\<close>): the records from \<open>DEBUG\<close> up
  to below \<open>INFO\<close> go to the console only.
\<close>

theorem file_handler_filters_below_info:
  "get (get_logging_config p) [''handlers'', ''rotating_file'', ''level''] = Some (VStr ''INFO'')
   \<and> get (get_logging_config p) [''handlers'', ''console'', ''level''] = Some (VStr ''DEBUG'')
   \<and> get (get_logging_config p) [''loggers'', '''', ''level''] = Some (VStr ''DEBUG'')
   \<and> level_value ''DEBUG'' = Some 10 \<and> level_value ''INFO'' = Some 20
   \<and> handler_receives (get_logging_config p) ''rotating_file'' n = (20 \<le> n)
   \<and> handler_receives (get_logging_config p) ''console'' n = (10 \<le> n)"
  by (auto simp add: get_logging_config_def handler_receives_def level_at_def level_value_def)

subsection \<open>The log directory and the setup\<close>
























end
